theory Spec2Isabelle
  imports Main "HOL-Library.Word"
begin

section \<open>Values that cross the bridge\<close>

text \<open>
  The bridge (\<^verbatim>\<open>src/bridge/geodesk_bridge.cpp\<close>) copies numbers and strings out of the
  wrapped store and never computes with them. A \<^verbatim>\<open>double\<close> is therefore modelled by its
  64-bit pattern and \<^verbatim>\<open>int64_t\<close> as a 64-bit word; equality is equality of the bits. A
  \<^verbatim>\<open>std::string\<close> is the list of its bytes, and the conversions between the store's
  string views, \<^verbatim>\<open>std::string\<close> and the strings of the generated header are taken to keep
  the bytes.
\<close>

type_synonym double = "64 word"
type_synonym int64 = "64 word"

text \<open>
  Exceptions derived from \<^verbatim>\<open>std::exception\<close>. The first constructor stands for any other
  class of that family thrown by the store; \<open>what\<close> is its message.
\<close>

datatype exception =
    std_exception string
  | runtime_error string
  | out_of_range string

fun what :: "exception \<Rightarrow> string" where
  "what (std_exception m) = m"
| "what (runtime_error m) = m"
| "what (out_of_range m) = m"

text \<open>\<^verbatim>\<open>struct BoundingBox\<close> (geodesk_bridge.h, lines 19 to 24).\<close>

record BoundingBox =
  west :: double
  south :: double
  east :: double
  north :: double

text \<open>
  \<^verbatim>\<open>NodeData\<close> and \<^verbatim>\<open>FeatureData\<close> are declared by the generated header; their fields
  are the ones \<^verbatim>\<open>FeatureStore::query\<close> assigns. The fields \<^verbatim>\<open>id\<close>, \<^verbatim>\<open>lon\<close> and
  \<^verbatim>\<open>lat\<close> occur in both structs and carry a prefix here (\<open>nd_\<close>, \<open>fd_\<close>).
\<close>

record NodeData =
  nd_id :: int64
  nd_lon :: double
  nd_lat :: double

record FeatureData =
  fd_id :: int64
  type_name :: string
  fd_lon :: double
  fd_lat :: double
  name :: string
  tag_keys :: "string list"
  tag_values :: "string list"
  nodes :: "NodeData list"

section \<open>The store, as the bridge sees it\<close>

text \<open>
  The wrapped library is outside the repository. It enters the model as data: whatever
  its calls return to the bridge. A range that a \<^verbatim>\<open>for\<close> statement walks is a finite
  sequence of items that ends normally or with an exception thrown by the iterator.
\<close>

datatype 'a iter =
    End
  | Item 'a "'a iter"
  | Throws exception

fun iter_items :: "'a iter \<Rightarrow> 'a list" where
  "iter_items End = []"
| "iter_items (Item x rest) = x # iter_items rest"
| "iter_items (Throws e) = []"

fun iter_error :: "'a iter \<Rightarrow> exception option" where
  "iter_error End = None"
| "iter_error (Item x rest) = iter_error rest"
| "iter_error (Throws e) = Some e"

text \<open>
  \<^verbatim>\<open>Box::ofWSEN(w, s, e, n)\<close>: the box is known to the model only as the call that made
  it, with its four arguments in order.
\<close>

datatype Box = ofWSEN double double double double

text \<open>
  \<^verbatim>\<open>TagValue\<close>: the result of \<^verbatim>\<open>feature["name"]\<close>, observed through its conversion to
  \<^verbatim>\<open>bool\<close> (the test \<^verbatim>\<open>if (nameTag)\<close>) and to \<^verbatim>\<open>std::string\<close>.
\<close>

record TagValue =
  to_bool :: bool
  to_string :: string

record Tag =
  tag_key :: string
  tag_value :: string

record Node =
  node_id :: int64
  node_lon :: double
  node_lat :: double

text \<open>
  \<^verbatim>\<open>Feature\<close>: one field for each member the bridge calls: \<^verbatim>\<open>id()\<close>, \<^verbatim>\<open>typeName()\<close>,
  \<^verbatim>\<open>lon()\<close>, \<^verbatim>\<open>lat()\<close>, \<^verbatim>\<open>operator[]\<close>, \<^verbatim>\<open>tags()\<close>, \<^verbatim>\<open>isWay()\<close> and \<^verbatim>\<open>nodes()\<close>.
\<close>

record Feature =
  feature_id :: int64
  typeName :: string
  feature_lon :: double
  feature_lat :: double
  lookup :: "string \<Rightarrow> TagValue"
  tags :: "Tag iter"
  isWay :: bool
  feature_nodes :: "Node iter"

text \<open>
  \<^verbatim>\<open>Features\<close>: \<^verbatim>\<open>features(query)(box)\<close> is the range of matching features. The query
  reaches the store as a C string. An exception thrown while the filter is parsed or the
  box applied is a range that throws before its first item.
\<close>

type_synonym Features = "string \<Rightarrow> Box \<Rightarrow> Feature iter"

text \<open>\<^verbatim>\<open>class FeatureStore\<close>: the only member is \<^verbatim>\<open>pImpl\<close>, which holds \<^verbatim>\<open>features\<close>.\<close>

record FeatureStore =
  pImpl_features :: Features

text \<open>\<^verbatim>\<open>std::string::c_str()\<close> read as a C string: the bytes before the first NUL.\<close>

definition c_str :: "string \<Rightarrow> string" where
  "c_str s = takeWhile (\<lambda>c. c \<noteq> CHR 0x00) s"

section \<open>FeatureResult\<close>

text \<open>
  \<^verbatim>\<open>class FeatureResult\<close> (geodesk_bridge.h, lines 47 to 61) has one member, the vector
  \<^verbatim>\<open>features\<close>. An index is a \<^verbatim>\<open>size_t\<close>; it is only compared with the size, so a
  natural number stands for it.
\<close>

record FeatureResult =
  features :: "FeatureData list"

definition FeatureResult_new :: FeatureResult where
  "FeatureResult_new = \<lparr>features = []\<rparr>"

definition count :: "FeatureResult \<Rightarrow> nat" where
  "count r = length (features r)"

definition get :: "FeatureResult \<Rightarrow> nat \<Rightarrow> exception + FeatureData" where
  "get r index =
     (if index \<ge> length (features r)
      then Inl (out_of_range ''Feature index out of range'')
      else Inr (features r ! index))"

definition to_vector :: "FeatureResult \<Rightarrow> FeatureData list" where
  "to_vector r = features r"

definition add_feature :: "FeatureResult \<Rightarrow> FeatureData \<Rightarrow> FeatureResult" where
  "add_feature r feature = r\<lparr>features := features r @ [feature]\<rparr>"

text \<open>
  The three reading members are declared \<^verbatim>\<open>const\<close> and the class has no \<^verbatim>\<open>mutable\<close>
  member, so a call yields its value and leaves the object as it is. \<open>call\<close> makes that
  explicit: it returns the value and the object after the call.
\<close>

datatype read = Count | Get nat | ToVector

datatype reply =
    Size nat
  | Record "exception + FeatureData"
  | Records "FeatureData list"

fun call :: "read \<Rightarrow> FeatureResult \<Rightarrow> reply \<times> FeatureResult" where
  "call Count r = (Size (count r), r)"
| "call (Get index) r = (Record (get r index), r)"
| "call ToVector r = (Records (to_vector r), r)"

section \<open>FeatureStore::query\<close>

text \<open>
  \<^verbatim>\<open>FeatureData data;\<close> leaves strings and vectors empty. The three numbers are
  assigned before anything reads them; they start at zero here.
\<close>

definition FeatureData_new :: FeatureData where
  "FeatureData_new =
     \<lparr>fd_id = 0, type_name = [], fd_lon = 0, fd_lat = 0, name = [],
      tag_keys = [], tag_values = [], nodes = []\<rparr>"

text \<open>Lines 62 to 65: the loop over the tags.\<close>

fun collect_tags :: "Tag iter \<Rightarrow> FeatureData \<Rightarrow> exception + FeatureData" where
  "collect_tags End data = Inr data"
| "collect_tags (Throws e) data = Inl e"
| "collect_tags (Item tag rest) data =
     collect_tags rest
       (data\<lparr>tag_keys := tag_keys data @ [tag_key tag],
             tag_values := tag_values data @ [tag_value tag]\<rparr>)"

text \<open>Lines 72 to 75: the \<^verbatim>\<open>NodeData\<close> made from a node of the store.\<close>

definition node_data :: "Node \<Rightarrow> NodeData" where
  "node_data node =
     \<lparr>nd_id = node_id node, nd_lon = node_lon node, nd_lat = node_lat node\<rparr>"

text \<open>Lines 71 to 77: the loop over the nodes of a way.\<close>

fun collect_nodes :: "Node iter \<Rightarrow> FeatureData \<Rightarrow> exception + FeatureData" where
  "collect_nodes End data = Inr data"
| "collect_nodes (Throws e) data = Inl e"
| "collect_nodes (Item node rest) data =
     collect_nodes rest (data\<lparr>nodes := nodes data @ [node_data node]\<rparr>)"

text \<open>Lines 46 to 78: the body of the loop over the features, up to the finished record.\<close>

definition feature_data :: "Feature \<Rightarrow> exception + FeatureData" where
  "feature_data feature =
     (let data = FeatureData_new;
          data = data\<lparr>fd_id := feature_id feature\<rparr>;
          data = data\<lparr>type_name := typeName feature\<rparr>;
          data = data\<lparr>fd_lon := feature_lon feature\<rparr>;
          data = data\<lparr>fd_lat := feature_lat feature\<rparr>;
          nameTag = lookup feature ''name'';
          data = (if to_bool nameTag then data\<lparr>name := to_string nameTag\<rparr>
                  else data\<lparr>name := ''''\<rparr>)
      in case collect_tags (tags feature) data of
           Inl e \<Rightarrow> Inl e
         | Inr data \<Rightarrow>
             if isWay feature then collect_nodes (feature_nodes feature) data
             else Inr data)"

text \<open>Lines 45 to 81: the loop over the features; line 80 appends the record.\<close>

fun collect_features :: "Feature iter \<Rightarrow> FeatureResult \<Rightarrow> exception + FeatureResult" where
  "collect_features End result = Inr result"
| "collect_features (Throws e) result = Inl e"
| "collect_features (Item feature rest) result =
     (case feature_data feature of
        Inl e \<Rightarrow> Inl e
      | Inr data \<Rightarrow> collect_features rest (add_feature result data))"

text \<open>Lines 38 to 42: the range the loop walks.\<close>

definition filtered :: "FeatureStore \<Rightarrow> string \<Rightarrow> BoundingBox \<Rightarrow> Feature iter" where
  "filtered store goql_query bbox =
     (let box = ofWSEN (west bbox) (south bbox) (east bbox) (north bbox)
      in pImpl_features store (c_str goql_query) box)"

text \<open>
  \<^verbatim>\<open>FeatureStore::query\<close> (lines 32 to 87): the \<^verbatim>\<open>try\<close> block, and the handler that
  throws \<^verbatim>\<open>std::runtime_error\<close> in place of what it caught. \<open>Inl\<close> is the exception that
  leaves the function, \<open>Inr\<close> the result it returns.
\<close>

definition query :: "FeatureStore \<Rightarrow> string \<Rightarrow> BoundingBox \<Rightarrow> exception + FeatureResult" where
  "query store goql_query bbox =
     (let result = FeatureResult_new
      in case collect_features (filtered store goql_query bbox) result of
           Inl e \<Rightarrow> Inl (runtime_error (''Query failed: '' @ what e))
         | Inr result \<Rightarrow> Inr result)"

text \<open>\<^verbatim>\<open>FeatureStore::query_amenities\<close> (lines 24 to 30).\<close>

definition query_amenities ::
  "FeatureStore \<Rightarrow> string \<Rightarrow> BoundingBox \<Rightarrow> exception + FeatureResult" where
  "query_amenities store amenity_type bbox =
     (let goql_query = ''na[amenity='' @ amenity_type @ '']''
      in query store goql_query bbox)"

text \<open>The functions offered to the other side of the bridge (lines 113 to 133).\<close>

definition query_amenities_in_bbox ::
  "FeatureStore \<Rightarrow> string \<Rightarrow> double \<Rightarrow> double \<Rightarrow> double \<Rightarrow> double
     \<Rightarrow> exception + FeatureResult" where
  "query_amenities_in_bbox store amenity_type w s e n =
     (let bbox = \<lparr>west = w, south = s, east = e, north = n\<rparr>
      in query_amenities store amenity_type bbox)"

definition query_with_goql ::
  "FeatureStore \<Rightarrow> string \<Rightarrow> double \<Rightarrow> double \<Rightarrow> double \<Rightarrow> double
     \<Rightarrow> exception + FeatureResult" where
  "query_with_goql store goql_query w s e n =
     (let bbox = \<lparr>west = w, south = s, east = e, north = n\<rparr>
      in query store goql_query bbox)"

definition result_count :: "FeatureResult \<Rightarrow> nat" where
  "result_count result = count result"

definition result_to_vec :: "FeatureResult \<Rightarrow> FeatureData list" where
  "result_to_vec result = to_vector result"

section \<open>Objects, owners and calls in sequence\<close>

text \<open>
  The functions above take objects as values. On the other side of the bridge the caller
  holds them through pointers: \<^verbatim>\<open>query\<close> returns a \<^verbatim>\<open>unique_ptr<FeatureResult>\<close>,
  \<^verbatim>\<open>get\<close> a \<^verbatim>\<open>unique_ptr<FeatureData>\<close>, and every call takes the store or the result by
  reference. To speak of what a call leaves behind for the next one, the objects are put
  in a heap: a cell for each address ever given out, empty once its object is destroyed.
  \<^verbatim>\<open>std::make_unique\<close> takes the next address.
\<close>

type_synonym addr = nat

datatype object =
    StoreObj FeatureStore
  | ResultObj FeatureResult
  | DataObj FeatureData

type_synonym heap = "object option list"

definition cell :: "heap \<Rightarrow> addr \<Rightarrow> object option" where
  "cell h p = (if p < length h then h ! p else None)"

definition make_unique :: "heap \<Rightarrow> object \<Rightarrow> addr \<times> heap" where
  "make_unique h obj = (length h, h @ [Some obj])"

definition release :: "heap \<Rightarrow> addr \<Rightarrow> heap" where
  "release h p = h[p := None]"

text \<open>
  A call through a reference that does not denote a live object of the class has no
  defined behaviour; it is \<open>None\<close> here. Otherwise a call gives its value and the heap
  it leaves.

  \<^verbatim>\<open>FeatureStore::query\<close> through a reference to the store: line 35 makes the
  \<^verbatim>\<open>FeatureResult\<close> at a new address, the loop fills it, and the pointer is returned;
  when the handler throws, the pointer goes out of scope and its object is destroyed.
\<close>

definition query_at ::
  "heap \<Rightarrow> addr \<Rightarrow> string \<Rightarrow> BoundingBox \<Rightarrow> ((exception + addr) \<times> heap) option" where
  "query_at h this goql_query bbox =
     (case cell h this of
        Some (StoreObj store) \<Rightarrow>
          (case make_unique h (ResultObj FeatureResult_new) of
             (result, h1) \<Rightarrow>
               (case query store goql_query bbox of
                  Inl e \<Rightarrow> Some (Inl e, release h1 result)
                | Inr r \<Rightarrow> Some (Inr result, h1[result := Some (ResultObj r)])))
      | _ \<Rightarrow> None)"

text \<open>\<^verbatim>\<open>FeatureResult::count\<close> (line 93) through a reference to the result.\<close>

definition count_at :: "heap \<Rightarrow> addr \<Rightarrow> (nat \<times> heap) option" where
  "count_at h this =
     (case cell h this of
        Some (ResultObj r) \<Rightarrow> Some (length (features r), h)
      | _ \<Rightarrow> None)"

text \<open>
  \<^verbatim>\<open>FeatureResult::get\<close> (lines 95 to 100): line 99 copies the record into a new object
  and returns the pointer to it.
\<close>

definition get_at :: "heap \<Rightarrow> addr \<Rightarrow> nat \<Rightarrow> ((exception + addr) \<times> heap) option" where
  "get_at h this index =
     (case cell h this of
        Some (ResultObj r) \<Rightarrow>
          if index \<ge> length (features r)
          then Some (Inl (out_of_range ''Feature index out of range''), h)
          else (case make_unique h (DataObj (features r ! index)) of
                  (p, h') \<Rightarrow> Some (Inr p, h'))
      | _ \<Rightarrow> None)"

text \<open>\<^verbatim>\<open>FeatureResult::to_vector\<close> (line 102): the vector is returned by value.\<close>

definition to_vector_at :: "heap \<Rightarrow> addr \<Rightarrow> (FeatureData list \<times> heap) option" where
  "to_vector_at h this =
     (case cell h this of
        Some (ResultObj r) \<Rightarrow> Some (features r, h)
      | _ \<Rightarrow> None)"

text \<open>
  What a caller can do, one call after the other: run a query on a store, read a result,
  or let go of a pointer it owns (a store, a result or a copied record), which destroys
  the object. What it sees of a query is the pointer or the exception; of a read, the
  value, and for \<open>Get\<close> the record behind the pointer it was given.
\<close>

datatype event =
    RunQuery addr string BoundingBox
  | Read addr read
  | Release addr

datatype answer =
    Made "exception + addr"
  | Reply reply
  | Released

fun step :: "heap \<Rightarrow> event \<Rightarrow> (answer \<times> heap) option" where
  "step h (RunQuery s goql_query bbox) =
     (case query_at h s goql_query bbox of
        None \<Rightarrow> None
      | Some (a, h') \<Rightarrow> Some (Made a, h'))"
| "step h (Read p Count) =
     (case count_at h p of
        None \<Rightarrow> None
      | Some (n, h') \<Rightarrow> Some (Reply (Size n), h'))"
| "step h (Read p (Get index)) =
     (case get_at h p index of
        None \<Rightarrow> None
      | Some (Inl e, h') \<Rightarrow> Some (Reply (Record (Inl e)), h')
      | Some (Inr q, h') \<Rightarrow>
          (case cell h' q of
             Some (DataObj data) \<Rightarrow> Some (Reply (Record (Inr data)), h')
           | _ \<Rightarrow> None))"
| "step h (Read p ToVector) =
     (case to_vector_at h p of
        None \<Rightarrow> None
      | Some (v, h') \<Rightarrow> Some (Reply (Records v), h'))"
| "step h (Release p) = Some (Released, release h p)"

fun run :: "heap \<Rightarrow> event list \<Rightarrow> (answer list \<times> heap) option" where
  "run h [] = Some ([], h)"
| "run h (ev # evs) =
     (case step h ev of
        None \<Rightarrow> None
      | Some (a, h') \<Rightarrow>
          (case run h' evs of
             None \<Rightarrow> None
           | Some (as, h'') \<Rightarrow> Some (a # as, h'')))"

text \<open>What stands behind the answer of a query: the exception, or the result pointed to.\<close>

fun outcome :: "heap \<Rightarrow> exception + addr \<Rightarrow> (exception + FeatureResult) option" where
  "outcome h (Inl e) = Some (Inl e)"
| "outcome h (Inr p) =
     (case cell h p of
        Some (ResultObj r) \<Rightarrow> Some (Inr r)
      | _ \<Rightarrow> None)"

text \<open>Events that read the result at \<open>p\<close> or let go of some other object.\<close>

fun reads_or_releases :: "addr \<Rightarrow> event \<Rightarrow> bool" where
  "reads_or_releases p (Read a rd) = (a = p)"
| "reads_or_releases p (Release a) = (a \<noteq> p)"
| "reads_or_releases p (RunQuery s goql_query bbox) = False"

section \<open>What the store reports\<close>

text \<open>
  The first exception the store throws while a query walks its answer: each feature's
  tags are walked, then its nodes when it is a way, then the range moves on.
\<close>

definition feature_failure :: "Feature \<Rightarrow> exception option" where
  "feature_failure f =
     (case iter_error (tags f) of
        Some e \<Rightarrow> Some e
      | None \<Rightarrow> if isWay f then iter_error (feature_nodes f) else None)"

fun store_failure :: "Feature iter \<Rightarrow> exception option" where
  "store_failure End = None"
| "store_failure (Throws e) = Some e"
| "store_failure (Item f rest) =
     (case feature_failure f of
        Some e \<Rightarrow> Some e
      | None \<Rightarrow> store_failure rest)"

section \<open>A small store for the worked examples\<close>

definition no_tag :: TagValue where
  "no_tag = \<lparr>to_bool = False, to_string = []\<rparr>"

definition example_cafe :: Feature where
  "example_cafe =
     \<lparr>feature_id = 101, typeName = ''node'', feature_lon = 7, feature_lat = 8,
      lookup = (\<lambda>k. if k = ''name'' then \<lparr>to_bool = True, to_string = ''Joe''\<rparr> else no_tag),
      tags = Item \<lparr>tag_key = ''amenity'', tag_value = ''cafe''\<rparr>
               (Item \<lparr>tag_key = ''name'', tag_value = ''Joe''\<rparr> End),
      isWay = False,
      feature_nodes = End\<rparr>"

definition example_way :: Feature where
  "example_way =
     \<lparr>feature_id = 202, typeName = ''way'', feature_lon = 5, feature_lat = 6,
      lookup = (\<lambda>k. no_tag),
      tags = Item \<lparr>tag_key = ''amenity'', tag_value = ''cafe''\<rparr> End,
      isWay = True,
      feature_nodes =
        Item \<lparr>node_id = 1, node_lon = 11, node_lat = 12\<rparr>
          (Item \<lparr>node_id = 2, node_lon = 13, node_lat = 14\<rparr> End)\<rparr>"

text \<open>A way whose node range throws after its first node.\<close>

definition example_broken :: Feature where
  "example_broken =
     \<lparr>feature_id = 303, typeName = ''way'', feature_lon = 3, feature_lat = 4,
      lookup = (\<lambda>k. no_tag),
      tags = Item \<lparr>tag_key = ''amenity'', tag_value = ''bar''\<rparr> End,
      isWay = True,
      feature_nodes =
        Item \<lparr>node_id = 3, node_lon = 15, node_lat = 16\<rparr>
          (Throws (std_exception ''read error''))\<rparr>"

definition example_bbox :: BoundingBox where
  "example_bbox = \<lparr>west = 10, south = 20, east = 30, north = 40\<rparr>"

definition example_store :: FeatureStore where
  "example_store =
     \<lparr>pImpl_features = (\<lambda>q box.
        if box = ofWSEN 10 20 30 40 then
          (if q = ''na[amenity=cafe]'' then Item example_cafe (Item example_way End)
           else if q = ''na[amenity=bar]'' then
             Item example_cafe (Item example_broken (Item example_way End))
           else if q = ''na['' then Throws (std_exception ''syntax error'')
           else End)
        else End)\<rparr>"

text \<open>The records and the result expected for the filter \<^verbatim>\<open>na[amenity=cafe]\<close>.\<close>

definition example_cafe_data :: FeatureData where
  "example_cafe_data =
     \<lparr>fd_id = 101, type_name = ''node'', fd_lon = 7, fd_lat = 8, name = ''Joe'',
      tag_keys = [''amenity'', ''name''], tag_values = [''cafe'', ''Joe''], nodes = []\<rparr>"

definition example_way_data :: FeatureData where
  "example_way_data =
     \<lparr>fd_id = 202, type_name = ''way'', fd_lon = 5, fd_lat = 6, name = [],
      tag_keys = [''amenity''], tag_values = [''cafe''],
      nodes = [\<lparr>nd_id = 1, nd_lon = 11, nd_lat = 12\<rparr>, \<lparr>nd_id = 2, nd_lon = 13, nd_lat = 14\<rparr>]\<rparr>"

definition example_result :: FeatureResult where
  "example_result = \<lparr>features = [example_cafe_data, example_way_data]\<rparr>"

text \<open>A heap that holds the store alone, and the heap after the query for cafes.\<close>

definition example_heap :: heap where
  "example_heap = [Some (StoreObj example_store)]"

definition example_heap1 :: heap where
  "example_heap1 = [Some (StoreObj example_store), Some (ResultObj example_result)]"

text \<open>The heap after the caller has copied the first record and let go of the result.\<close>

definition example_heap2 :: heap where
  "example_heap2 = [Some (StoreObj example_store), None, Some (DataObj example_cafe_data)]"

text \<open>Reads of the result at address 1, with the store destroyed after the first.\<close>

definition example_events :: "event list" where
  "example_events = [Read 1 Count, Release 0, Read 1 (Get 1), Read 1 ToVector, Read 1 (Get 5)]"

section \<open>The loops\<close>

lemma collect_tags_eq:
  "collect_tags it data =
     (case iter_error it of
        Some e \<Rightarrow> Inl e
      | None \<Rightarrow>
          Inr (data\<lparr>tag_keys := tag_keys data @ map tag_key (iter_items it),
                    tag_values := tag_values data @ map tag_value (iter_items it)\<rparr>))"
  by (induction it arbitrary: data) (simp_all split: option.splits)

lemma collect_nodes_eq:
  "collect_nodes it data =
     (case iter_error it of
        Some e \<Rightarrow> Inl e
      | None \<Rightarrow> Inr (data\<lparr>nodes := nodes data @ map node_data (iter_items it)\<rparr>))"
  by (induction it arbitrary: data) (simp_all split: option.splits)

lemma feature_data_failure:
  "feature_failure f = Some e \<Longrightarrow> feature_data f = Inl e"
  by (simp add: feature_data_def feature_failure_def collect_tags_eq collect_nodes_eq Let_def
      split: option.splits if_splits)

lemma feature_data_success:
  "feature_failure f = None \<Longrightarrow> \<exists>data. feature_data f = Inr data"
  by (simp add: feature_data_def feature_failure_def collect_tags_eq collect_nodes_eq Let_def
      split: option.splits if_splits)

lemma collect_features_failure:
  "store_failure it = Some e \<Longrightarrow> collect_features it result = Inl e"
proof (induction it arbitrary: result)
  case (Item f rest)
  show ?case
  proof (cases "feature_failure f")
    case None
    then obtain data where "feature_data f = Inr data"
      using feature_data_success by blast
    with None Item show ?thesis by simp
  next
    case (Some e')
    with Item.prems have "e' = e" by simp
    with Some show ?thesis by (simp add: feature_data_failure)
  qed
qed simp_all

lemma collect_features_success:
  "store_failure it = None \<Longrightarrow>
     \<exists>r. collect_features it result = Inr r \<and>
         map Inr (features r) = map Inr (features result) @ map feature_data (iter_items it)"
proof (induction it arbitrary: result)
  case (Item f rest)
  from Item.prems have ff: "feature_failure f = None" and sf: "store_failure rest = None"
    by (simp_all split: option.splits)
  from ff obtain data where d: "feature_data f = Inr data"
    using feature_data_success by blast
  from Item.IH [OF sf, of "add_feature result data"] d show ?case
    by (auto simp: add_feature_def)
qed simp_all

lemma collect_features_Inr:
  assumes "collect_features it result = Inr r"
  shows "store_failure it = None"
    and "map Inr (features r) = map Inr (features result) @ map feature_data (iter_items it)"
proof -
  show none: "store_failure it = None"
  proof (cases "store_failure it")
    case (Some e)
    with collect_features_failure [of it e result] assms show ?thesis by simp
  qed simp
  from collect_features_success [OF none, of result] assms
  show "map Inr (features r) = map Inr (features result) @ map feature_data (iter_items it)"
    by auto
qed

section \<open>A query as a whole\<close>

lemma query_Inr:
  assumes "query store goql bbox = Inr r"
  shows "store_failure (filtered store goql bbox) = None"
    and "map Inr (features r) = map feature_data (iter_items (filtered store goql bbox))"
proof -
  from assms have c: "collect_features (filtered store goql bbox) FeatureResult_new = Inr r"
    by (simp add: query_def Let_def split: sum.splits)
  from collect_features_Inr(1) [OF c] show "store_failure (filtered store goql bbox) = None" .
  from collect_features_Inr(2) [OF c]
  show "map Inr (features r) = map feature_data (iter_items (filtered store goql bbox))"
    by (simp add: FeatureResult_new_def)
qed

lemma query_record:
  assumes "query store goql bbox = Inr r" and "i < count r"
  shows "i < length (iter_items (filtered store goql bbox))"
    and "feature_data (iter_items (filtered store goql bbox) ! i) = Inr (to_vector r ! i)"
proof -
  let ?fs = "iter_items (filtered store goql bbox)"
  from query_Inr(2) [OF assms(1)] have m: "map Inr (features r) = map feature_data ?fs" .
  then have "length (features r) = length ?fs"
    by (metis length_map)
  with assms(2) show l: "i < length ?fs" by (simp add: count_def)
  from m have "map Inr (features r) ! i = map feature_data ?fs ! i" by simp
  with l assms(2) show "feature_data (?fs ! i) = Inr (to_vector r ! i)"
    by (simp add: count_def to_vector_def)
qed

lemma query_failure:
  assumes "store_failure (filtered store goql bbox) = Some e"
  shows "query store goql bbox = Inl (runtime_error (''Query failed: '' @ what e))"
  using collect_features_failure [OF assms, of FeatureResult_new]
  by (simp add: query_def Let_def)

lemma query_success:
  assumes "store_failure (filtered store goql bbox) = None"
  shows "\<exists>r. query store goql bbox = Inr r"
  using collect_features_success [OF assms, of FeatureResult_new]
  by (auto simp: query_def Let_def)

lemma feature_data_Inr:
  assumes "feature_data f = Inr data"
  shows "fd_id data = feature_id f"
    and "type_name data = typeName f"
    and "fd_lon data = feature_lon f"
    and "fd_lat data = feature_lat f"
    and "name data = (if to_bool (lookup f ''name'') then to_string (lookup f ''name'') else [])"
    and "tag_keys data = map tag_key (iter_items (tags f))"
    and "tag_values data = map tag_value (iter_items (tags f))"
    and "nodes data = (if isWay f then map node_data (iter_items (feature_nodes f)) else [])"
  using assms
  by (auto simp: feature_data_def collect_tags_eq collect_nodes_eq Let_def FeatureData_new_def
      split: option.splits if_splits)

lemma zip_map_same: "zip (map f xs) (map g xs) = map (\<lambda>x. (f x, g x)) xs"
  by (induction xs) simp_all

section \<open>The heap from call to call\<close>

lemma cell_Some_less: "cell h p = Some x \<Longrightarrow> p < length h"
  by (simp add: cell_def split: if_splits)

lemma cell_append: "cell h p = Some x \<Longrightarrow> cell (h @ xs) p = Some x"
  by (simp add: cell_def nth_append split: if_splits)

lemma cell_update_other: "a \<noteq> p \<Longrightarrow> cell (h[a := v]) p = cell h p"
  by (simp add: cell_def)

lemma cell_update_same: "p < length h \<Longrightarrow> cell (h[p := v]) p = v"
  by (simp add: cell_def)

lemma query_at_live:
  assumes "cell h s = Some (StoreObj store)"
  shows "query_at h s goql bbox =
           (case query store goql bbox of
              Inl e \<Rightarrow> Some (Inl e, (h @ [Some (ResultObj FeatureResult_new)])[length h := None])
            | Inr r \<Rightarrow> Some (Inr (length h), h @ [Some (ResultObj r)]))"
  using assms by (simp add: query_at_def make_unique_def release_def split: sum.splits)

lemma query_at_Some:
  assumes "query_at h s goql bbox = Some (a, h')"
  shows "\<exists>store. cell h s = Some (StoreObj store)"
  using assms by (auto simp: query_at_def split: option.splits object.splits)

lemma query_at_outcome:
  assumes "cell h s = Some (StoreObj store)"
  shows "\<exists>a h'. query_at h s goql bbox = Some (a, h') \<and>
                 outcome h' a = Some (query store goql bbox) \<and>
                 (\<forall>p. a = Inr p \<longrightarrow> p = length h) \<and> length h < length h'"
  by (cases "query store goql bbox") (simp_all add: query_at_live [OF assms] cell_def)

lemma step_keeps_cell:
  assumes "cell h p = Some x" and "step h ev = Some (a, h')" and "ev \<noteq> Release p"
  shows "cell h' p = Some x"
proof -
  from assms(1) have less: "p < length h" by (rule cell_Some_less)
  show ?thesis
  proof (cases ev)
    case (RunQuery s goql bbox)
    with assms(2) obtain a' where q: "query_at h s goql bbox = Some (a', h')"
      by (auto split: option.splits)
    then obtain store where "cell h s = Some (StoreObj store)"
      using query_at_Some by blast
    from q query_at_live [OF this, of goql bbox] assms(1) less show ?thesis
      by (auto simp: cell_append cell_update_other split: sum.splits)
  next
    case (Read q rd)
    with assms(1,2) show ?thesis
      by (cases rd)
        (auto simp: count_at_def get_at_def to_vector_at_def make_unique_def cell_append
          split: option.splits object.splits if_splits sum.splits)
  next
    case (Release q)
    with assms show ?thesis
      by (auto simp: release_def cell_update_other)
  qed
qed

lemma step_length:
  assumes "step h ev = Some (a, h')"
  shows "length h \<le> length h'"
proof (cases ev)
  case (RunQuery s goql bbox)
  with assms obtain a' where q: "query_at h s goql bbox = Some (a', h')"
    by (auto split: option.splits)
  then obtain store where "cell h s = Some (StoreObj store)"
    using query_at_Some by blast
  from q query_at_live [OF this, of goql bbox] show ?thesis
    by (auto split: sum.splits)
next
  case (Read q rd)
  with assms show ?thesis
    by (cases rd)
      (auto simp: count_at_def get_at_def to_vector_at_def make_unique_def
        split: option.splits object.splits if_splits sum.splits)
next
  case (Release q)
  with assms show ?thesis by (auto simp: release_def)
qed

lemma run_keeps_cell:
  "cell h p = Some x \<Longrightarrow> run h evs = Some (as, h') \<Longrightarrow> Release p \<notin> set evs \<Longrightarrow>
     cell h' p = Some x"
proof (induction evs arbitrary: h as)
  case Nil
  then show ?case by simp
next
  case (Cons ev evs)
  from Cons.prems(2) obtain a h1 as' where
    s: "step h ev = Some (a, h1)" and r: "run h1 evs = Some (as', h')"
    by (auto split: option.splits)
  from Cons.prems(3) have "ev \<noteq> Release p" and n: "Release p \<notin> set evs" by auto
  from step_keeps_cell [OF Cons.prems(1) s this(1)] have "cell h1 p = Some x" .
  from Cons.IH [OF this r n] show ?case .
qed

lemma run_length:
  "run h evs = Some (as, h') \<Longrightarrow> length h \<le> length h' \<and> length as = length evs"
proof (induction evs arbitrary: h as)
  case Nil
  then show ?case by simp
next
  case (Cons ev evs)
  from Cons.prems obtain a h1 as' where
    s: "step h ev = Some (a, h1)" and r: "run h1 evs = Some (as', h')" and as: "as = a # as'"
    by (auto split: option.splits)
  from step_length [OF s] Cons.IH [OF r] as show ?case by simp
qed

lemma step_read:
  assumes "cell h p = Some (ResultObj r)"
  shows "\<exists>h'. step h (Read p rd) = Some (Reply (fst (call rd r)), h')"
  using assms
  by (cases rd)
    (simp_all add: count_at_def get_at_def to_vector_at_def make_unique_def cell_def
      count_def get_def to_vector_def)

lemma run_reads:
  "cell h p = Some (ResultObj r) \<Longrightarrow> run h evs = Some (as, h') \<Longrightarrow> Release p \<notin> set evs \<Longrightarrow>
     k < length evs \<Longrightarrow> evs ! k = Read p rd \<Longrightarrow> as ! k = Reply (fst (call rd r))"
proof (induction evs arbitrary: h as k)
  case Nil
  then show ?case by simp
next
  case (Cons ev evs)
  from Cons.prems(2) obtain a h1 as' where
    s: "step h ev = Some (a, h1)" and r: "run h1 evs = Some (as', h')" and as: "as = a # as'"
    by (auto split: option.splits)
  from Cons.prems(3) have ne: "ev \<noteq> Release p" and n: "Release p \<notin> set evs" by auto
  show ?case
  proof (cases k)
    case 0
    with Cons.prems(5) have "ev = Read p rd" by simp
    with step_read [OF Cons.prems(1), of rd] s as 0 show ?thesis by auto
  next
    case (Suc j)
    from step_keeps_cell [OF Cons.prems(1) s ne] have c: "cell h1 p = Some (ResultObj r)" .
    from Suc Cons.prems(4,5) have "j < length evs" and "evs ! j = Read p rd" by simp_all
    from Cons.IH [OF c r n this] as Suc show ?thesis by simp
  qed
qed

lemma run_total:
  "cell h p = Some (ResultObj r) \<Longrightarrow> list_all (reads_or_releases p) evs \<Longrightarrow>
     \<exists>as h'. run h evs = Some (as, h')"
proof (induction evs arbitrary: h)
  case Nil
  then show ?case by simp
next
  case (Cons ev evs)
  from Cons.prems(2) have ok: "reads_or_releases p ev" and rest: "list_all (reads_or_releases p) evs"
    by simp_all
  have "\<exists>a h1. step h ev = Some (a, h1) \<and> ev \<noteq> Release p"
  proof (cases ev)
    case (Read q rd)
    with ok step_read [OF Cons.prems(1), of rd] show ?thesis by auto
  next
    case (Release q)
    with ok show ?thesis by simp
  next
    case (RunQuery s g b)
    with ok show ?thesis by simp
  qed
  then obtain a h1 where s: "step h ev = Some (a, h1)" and ne: "ev \<noteq> Release p" by blast
  from step_keeps_cell [OF Cons.prems(1) s ne] have "cell h1 p = Some (ResultObj r)" .
  from Cons.IH [OF this rest] s show ?case by auto
qed

section \<open>The worked examples, evaluated\<close>

lemma example_filtered:
  "filtered example_store ''na[amenity=cafe]'' example_bbox =
     Item example_cafe (Item example_way End)"
  by (simp add: filtered_def example_store_def example_bbox_def c_str_def)

lemma example_cafe_feature_data: "feature_data example_cafe = Inr example_cafe_data"
  by (simp add: feature_data_def example_cafe_def example_cafe_data_def FeatureData_new_def
      Let_def)

lemma example_way_feature_data: "feature_data example_way = Inr example_way_data"
  by (simp add: feature_data_def example_way_def example_way_data_def FeatureData_new_def
      Let_def node_data_def no_tag_def)

lemma example_query:
  "query example_store ''na[amenity=cafe]'' example_bbox = Inr example_result"
  by (simp add: query_def example_filtered example_cafe_feature_data example_way_feature_data
      FeatureResult_new_def add_feature_def example_result_def Let_def)

lemma example_bar_filtered:
  "filtered example_store ''na[amenity=bar]'' example_bbox =
     Item example_cafe (Item example_broken (Item example_way End))"
  by (simp add: filtered_def example_store_def example_bbox_def c_str_def)

lemma example_bar_failure:
  "store_failure (filtered example_store ''na[amenity=bar]'' example_bbox) =
     Some (std_exception ''read error'')"
  by (simp add: example_bar_filtered feature_failure_def example_cafe_def example_broken_def)

lemma example_answer:
  "pImpl_features example_store (c_str ''na[amenity=cafe]'') (ofWSEN 10 20 30 40) =
     Item example_cafe (Item example_way End)"
  by (simp add: example_store_def c_str_def)

lemma example_answer_ok:
  "store_failure (pImpl_features example_store (c_str ''na[amenity=cafe]'') (ofWSEN 10 20 30 40))
     = None"
  by (simp add: example_answer feature_failure_def example_cafe_def example_way_def)

lemma example_query_with_goql:
  "query_with_goql example_store ''na[amenity=cafe]'' 10 20 30 40 = Inr example_result"
  using example_query by (simp add: query_with_goql_def example_bbox_def)

lemma example_cell_store: "cell example_heap 0 = Some (StoreObj example_store)"
  by (simp add: cell_def example_heap_def)

lemma example_cell_result: "cell example_heap1 1 = Some (ResultObj example_result)"
  by (simp add: cell_def example_heap1_def)

lemma example_query_at:
  "query_at example_heap 0 ''na[amenity=cafe]'' example_bbox = Some (Inr 1, example_heap1)"
  by (simp add: query_at_live [OF example_cell_store] example_query)
    (simp add: example_heap_def example_heap1_def)

lemma example_run:
  "run example_heap1 [Read 1 (Get 0), Release 1] =
     Some ([Reply (Record (Inr example_cafe_data)), Released], example_heap2)"
  by (simp add: get_at_def make_unique_def release_def cell_def example_heap1_def
      example_heap2_def example_result_def)

section \<open>The claims\<close>

text \<open>
  Claim C1. When a query succeeds with the result \<open>r\<close>, \<open>to_vector r\<close> has \<open>count r\<close>
  elements, as many as the store's range had features; and for every \<open>i\<close> below \<open>count r\<close>,
  \<open>get r i\<close> succeeds with the \<open>i\<close>-th element of \<open>to_vector r\<close>, which is the record made
  from the \<open>i\<close>-th feature of the range. Records are equal when all their fields are.
\<close>

theorem to_vector_count_get:
  assumes "query store goql_query bbox = Inr r"
  shows "length (to_vector r) = count r \<and>
         count r = length (iter_items (filtered store goql_query bbox)) \<and>
         (\<forall>i<count r.
            get r i = Inr (to_vector r ! i) \<and>
            feature_data (iter_items (filtered store goql_query bbox) ! i) = Inr (to_vector r ! i))"
proof -
  have len: "length (to_vector r) = count r"
    by (simp add: to_vector_def count_def)
  from query_Inr(2) [OF assms]
  have "length (map Inr (features r) :: (exception + FeatureData) list) =
        length (map feature_data (iter_items (filtered store goql_query bbox)))"
    by simp
  then have cnt: "count r = length (iter_items (filtered store goql_query bbox))"
    by (simp add: count_def)
  have "get r i = Inr (to_vector r ! i)" if "i < count r" for i
    using that by (simp add: get_def to_vector_def count_def)
  with len cnt query_record(2) [OF assms] show ?thesis by blast
qed

theorem to_vector_count_get_witness:
  "query example_store ''na[amenity=cafe]'' example_bbox = Inr example_result \<and>
   length (to_vector example_result) = 2 \<and>
   count example_result = 2 \<and>
   get example_result 0 = Inr example_cafe_data \<and>
   get example_result 1 = Inr example_way_data \<and>
   to_vector example_result = [example_cafe_data, example_way_data]"
  using to_vector_count_get [OF example_query] example_query
  by (simp add: example_filtered get_def count_def to_vector_def example_result_def)

text \<open>
  Claim C2. When the store throws while a query walks its answer (the range of features,
  the tags of a feature, the nodes of a way), \<open>query\<close> throws a \<open>runtime_error\<close> whose
  message is \<^verbatim>\<open>Query failed: \<close> followed by the message of what the store threw, and it
  returns no result: the records collected before the failure are gone. The same holds of
  \<open>query_amenities\<close>, for the filter it builds.
\<close>

theorem query_all_or_nothing:
  "(store_failure (filtered store goql_query bbox) = Some e \<longrightarrow>
      query store goql_query bbox = Inl (runtime_error (''Query failed: '' @ what e)) \<and>
      (\<forall>r. query store goql_query bbox \<noteq> Inr r)) \<and>
   (store_failure (filtered store (''na[amenity='' @ amenity_type @ '']'') bbox) = Some e \<longrightarrow>
      query_amenities store amenity_type bbox =
        Inl (runtime_error (''Query failed: '' @ what e)) \<and>
      (\<forall>r. query_amenities store amenity_type bbox \<noteq> Inr r))"
  by (simp add: query_amenities_def query_failure)

theorem query_all_or_nothing_witness:
  "store_failure (filtered example_store ''na[amenity=bar]'' example_bbox) =
     Some (std_exception ''read error'') \<and>
   feature_data example_cafe = Inr example_cafe_data \<and>
   query example_store ''na[amenity=bar]'' example_bbox =
     Inl (runtime_error ''Query failed: read error'') \<and>
   query_amenities example_store ''bar'' example_bbox =
     Inl (runtime_error ''Query failed: read error'')"
  using query_all_or_nothing [of example_store "''na[amenity=bar]''" example_bbox
      "std_exception ''read error''" "''bar''"]
    example_bar_failure example_cafe_feature_data
  by simp

text \<open>
  Claim C3. \<open>get r i\<close> throws exactly when \<open>i \<ge> count r\<close>, and what it throws is
  \<open>out_of_range\<close>. When \<open>i < count r\<close> it returns the record at position \<open>i\<close>, a value of
  its own. The call leaves \<open>r\<close> as it was.
\<close>

theorem get_out_of_range_iff:
  "((\<exists>e. get r i = Inl e) \<longleftrightarrow> i \<ge> count r) \<and>
   (get r i = Inl (out_of_range ''Feature index out of range'') \<longleftrightarrow> i \<ge> count r) \<and>
   (i < count r \<longrightarrow> get r i = Inr (to_vector r ! i)) \<and>
   snd (call (Get i) r) = r"
  by (simp add: get_def count_def to_vector_def)

theorem get_out_of_range_iff_witness:
  "1 < count example_result \<and> get example_result 1 = Inr example_way_data \<and>
   snd (call (Get 1) example_result) = example_result"
  using get_out_of_range_iff [of example_result 1]
  by (simp add: count_def to_vector_def example_result_def)

text \<open>
  Claim C4. \<open>query_amenities\<close> with the amenity type \<open>t\<close> is \<open>query\<close> with the filter
  \<^verbatim>\<open>na[amenity=\<close>\<open>t\<close>\<^verbatim>\<open>]\<close> over the same box: \<open>t\<close> stands in the filter byte for byte, whatever
  it is. The two exported functions agree in the same way.
\<close>

theorem query_amenities_is_query:
  "query_amenities store amenity_type bbox =
     query store (''na[amenity='' @ amenity_type @ '']'') bbox \<and>
   query_amenities_in_bbox store amenity_type w s e n =
     query_with_goql store (''na[amenity='' @ amenity_type @ '']'') w s e n"
  by (simp add: query_amenities_def query_amenities_in_bbox_def query_with_goql_def)

text \<open>
  Claim C5. In the result of a query, the record of a feature for which the store answers
  \<^verbatim>\<open>isWay()\<close> holds one \<open>NodeData\<close> (id, lon, lat) for each node of the way, in the
  store's order; the record of any other feature holds no nodes. Where the store's
  \<^verbatim>\<open>isWay()\<close> and \<^verbatim>\<open>typeName()\<close> agree on the feature, a record with nodes has the type
  name \<^verbatim>\<open>way\<close>.
\<close>

theorem way_nodes_captured:
  assumes "query store goql_query bbox = Inr r" and "i < count r"
  shows "nodes (to_vector r ! i) =
           (if isWay (iter_items (filtered store goql_query bbox) ! i)
            then map node_data
                   (iter_items (feature_nodes (iter_items (filtered store goql_query bbox) ! i)))
            else []) \<and>
         (isWay (iter_items (filtered store goql_query bbox) ! i) =
            (typeName (iter_items (filtered store goql_query bbox) ! i) = ''way'') \<longrightarrow>
          nodes (to_vector r ! i) \<noteq> [] \<longrightarrow> type_name (to_vector r ! i) = ''way'')"
proof -
  let ?f = "iter_items (filtered store goql_query bbox) ! i"
  from query_record(2) [OF assms] have d: "feature_data ?f = Inr (to_vector r ! i)" .
  from feature_data_Inr(8) [OF d] feature_data_Inr(2) [OF d] show ?thesis
    by (simp split: if_splits)
qed

theorem way_nodes_captured_witness:
  "query example_store ''na[amenity=cafe]'' example_bbox = Inr example_result \<and>
   1 < count example_result \<and>
   isWay example_way = (typeName example_way = ''way'') \<and>
   nodes (to_vector example_result ! 1) =
     [\<lparr>nd_id = 1, nd_lon = 11, nd_lat = 12\<rparr>, \<lparr>nd_id = 2, nd_lon = 13, nd_lat = 14\<rparr>] \<and>
   type_name (to_vector example_result ! 1) = ''way''"
  using way_nodes_captured [OF example_query, of 1] example_query
  by (simp add: example_filtered count_def to_vector_def example_result_def example_way_def
      node_data_def example_way_data_def)

text \<open>
  Claim C6. In the result of a query, the record of a feature whose \<^verbatim>\<open>"name"\<close> lookup
  converts to \<^verbatim>\<open>false\<close> (no such tag) has the empty string as its name, and so has the
  record of a feature whose name is the empty string. A feature without the tag and the
  same feature with an empty name give the same outcome, field for field. The name is
  always a string.
\<close>

theorem missing_name_is_empty:
  assumes "query store goql_query bbox = Inr r" and "i < count r"
  shows "(\<not> to_bool (lookup (iter_items (filtered store goql_query bbox) ! i) ''name'') \<longrightarrow>
            name (to_vector r ! i) = []) \<and>
         (to_string (lookup (iter_items (filtered store goql_query bbox) ! i) ''name'') = [] \<longrightarrow>
            name (to_vector r ! i) = []) \<and>
         (\<forall>f v. \<not> to_bool v \<longrightarrow>
            feature_data (f\<lparr>lookup := (lookup f)(''name'' := v)\<rparr>) =
            feature_data (f\<lparr>lookup := (lookup f)(''name'' := \<lparr>to_bool = True, to_string = []\<rparr>)\<rparr>))"
proof -
  let ?f = "iter_items (filtered store goql_query bbox) ! i"
  from query_record(2) [OF assms] have d: "feature_data ?f = Inr (to_vector r ! i)" .
  have "feature_data (f\<lparr>lookup := (lookup f)(''name'' := v)\<rparr>) =
        feature_data (f\<lparr>lookup := (lookup f)(''name'' := \<lparr>to_bool = True, to_string = []\<rparr>)\<rparr>)"
    if "\<not> to_bool v" for f v
    using that by (simp add: feature_data_def Let_def split: sum.splits)
  with feature_data_Inr(5) [OF d] show ?thesis
    by simp
qed

theorem missing_name_is_empty_witness:
  "query example_store ''na[amenity=cafe]'' example_bbox = Inr example_result \<and>
   1 < count example_result \<and>
   \<not> to_bool (lookup example_way ''name'') \<and>
   to_string (lookup example_way ''name'') = [] \<and>
   \<not> to_bool no_tag \<and>
   name (to_vector example_result ! 1) = []"
  using missing_name_is_empty [OF example_query, of 1] example_query
  by (simp add: example_filtered count_def to_vector_def example_result_def example_way_def
      no_tag_def example_way_data_def)

text \<open>
  Claim C7. For any four coordinates, ordered or not, the range a query walks is the
  store's answer for the box \<open>ofWSEN west south east north\<close>. Nothing at this layer rejects
  a box: when the store's answer holds no failure the query succeeds. The records of a
  result are those of the features of the range, in the order of the range.
\<close>

theorem box_order_and_iteration_order:
  "filtered store goql_query \<lparr>west = w, south = s, east = e, north = n\<rparr> =
     pImpl_features store (c_str goql_query) (ofWSEN w s e n) \<and>
   (store_failure (pImpl_features store (c_str goql_query) (ofWSEN w s e n)) = None \<longrightarrow>
      (\<exists>r. query_with_goql store goql_query w s e n = Inr r)) \<and>
   (\<forall>r. query_with_goql store goql_query w s e n = Inr r \<longrightarrow>
      map Inr (to_vector r) =
        map feature_data (iter_items (pImpl_features store (c_str goql_query) (ofWSEN w s e n))))"
proof -
  let ?bbox = "\<lparr>west = w, south = s, east = e, north = n\<rparr>"
  have f: "filtered store goql_query ?bbox =
             pImpl_features store (c_str goql_query) (ofWSEN w s e n)"
    by (simp add: filtered_def)
  have q: "query_with_goql store goql_query w s e n = query store goql_query ?bbox"
    by (simp add: query_with_goql_def)
  from query_success [of store goql_query ?bbox]
  have "store_failure (pImpl_features store (c_str goql_query) (ofWSEN w s e n)) = None \<longrightarrow>
          (\<exists>r. query_with_goql store goql_query w s e n = Inr r)"
    by (simp add: f q)
  moreover
  have "map Inr (to_vector r) =
          map feature_data (iter_items (pImpl_features store (c_str goql_query) (ofWSEN w s e n)))"
    if "query_with_goql store goql_query w s e n = Inr r" for r
    using query_Inr(2) [of store goql_query ?bbox r] that
    by (simp add: f q to_vector_def)
  ultimately show ?thesis using f by blast
qed

theorem box_order_and_iteration_order_witness:
  "store_failure (pImpl_features example_store (c_str ''na[amenity=cafe]'') (ofWSEN 10 20 30 40))
     = None \<and>
   query_with_goql example_store ''na[amenity=cafe]'' 10 20 30 40 = Inr example_result \<and>
   map Inr (to_vector example_result) = map feature_data [example_cafe, example_way]"
  using box_order_and_iteration_order [of example_store "''na[amenity=cafe]''" 10 20 30 40]
    example_answer_ok example_query_with_goql example_answer
  by simp

text \<open>
  Claim C8. A query run on a live store, then run again with the same filter and box
  after any calls that do not destroy that store (reads, copies, other queries, letting
  go of results), has the same outcome both times: the same records in the same order
  with the same fields, or the same exception. The second run starts in the heap the
  first one and the calls in between have left; no call of the bridge changes the store
  object, and each successful run makes its result at an address of its own.
\<close>

theorem repeated_query_same_result:
  assumes "cell h s = Some (StoreObj store)"
  shows "\<exists>a1 h1. query_at h s goql_query bbox = Some (a1, h1) \<and>
           outcome h1 a1 = Some (query store goql_query bbox) \<and>
           (\<forall>evs as h'. run h1 evs = Some (as, h') \<and> Release s \<notin> set evs \<longrightarrow>
              (\<exists>a2 h2. query_at h' s goql_query bbox = Some (a2, h2) \<and>
                 outcome h2 a2 = outcome h1 a1 \<and>
                 (\<forall>p1 p2. a1 = Inr p1 \<and> a2 = Inr p2 \<longrightarrow> p1 \<noteq> p2)))"
proof -
  from query_at_outcome [OF assms, of goql_query bbox] obtain a1 h1 where
    q1: "query_at h s goql_query bbox = Some (a1, h1)" and
    o1: "outcome h1 a1 = Some (query store goql_query bbox)" and
    p1: "\<forall>p. a1 = Inr p \<longrightarrow> p = length h" and
    l1: "length h < length h1"
    by blast
  from q1 have "step h (RunQuery s goql_query bbox) = Some (Made a1, h1)"
    by simp
  from step_keeps_cell [OF assms this] have s1: "cell h1 s = Some (StoreObj store)"
    by simp
  have "\<exists>a2 h2. query_at h' s goql_query bbox = Some (a2, h2) \<and>
          outcome h2 a2 = outcome h1 a1 \<and>
          (\<forall>p1 p2. a1 = Inr p1 \<and> a2 = Inr p2 \<longrightarrow> p1 \<noteq> p2)"
    if r: "run h1 evs = Some (as, h')" and n: "Release s \<notin> set evs" for evs as h'
  proof -
    from run_keeps_cell [OF s1 r n] have s': "cell h' s = Some (StoreObj store)" .
    from run_length [OF r] l1 have l': "length h < length h'" by simp
    from query_at_outcome [OF s', of goql_query bbox] obtain a2 h2 where
      "query_at h' s goql_query bbox = Some (a2, h2)" and
      "outcome h2 a2 = Some (query store goql_query bbox)" and
      "\<forall>p. a2 = Inr p \<longrightarrow> p = length h'"
      by blast
    with o1 p1 l' show ?thesis by auto
  qed
  with q1 o1 show ?thesis by blast
qed

theorem repeated_query_same_result_witness:
  "cell example_heap 0 = Some (StoreObj example_store) \<and>
   query_at example_heap 0 ''na[amenity=cafe]'' example_bbox = Some (Inr 1, example_heap1) \<and>
   run example_heap1 [Read 1 (Get 0), Release 1] =
     Some ([Reply (Record (Inr example_cafe_data)), Released], example_heap2) \<and>
   Release 0 \<notin> set [Read 1 (Get 0), Release 1] \<and>
   (\<exists>a2 h2. query_at example_heap2 0 ''na[amenity=cafe]'' example_bbox = Some (a2, h2) \<and>
      outcome h2 a2 = Some (Inr example_result) \<and> a2 \<noteq> Inr 1)"
proof -
  from repeated_query_same_result [OF example_cell_store, of "''na[amenity=cafe]''" example_bbox]
  obtain a1 h1 where
    q: "query_at example_heap 0 ''na[amenity=cafe]'' example_bbox = Some (a1, h1)" and
    again: "\<forall>evs as h'. run h1 evs = Some (as, h') \<and> Release 0 \<notin> set evs \<longrightarrow>
      (\<exists>a2 h2. query_at h' 0 ''na[amenity=cafe]'' example_bbox = Some (a2, h2) \<and>
         outcome h2 a2 = outcome h1 a1 \<and>
         (\<forall>p1 p2. a1 = Inr p1 \<and> a2 = Inr p2 \<longrightarrow> p1 \<noteq> p2))"
    by blast
  from q example_query_at have a1: "a1 = Inr 1" and h1: "h1 = example_heap1"
    by simp_all
  have keep: "Release 0 \<notin> set [Read 1 (Get 0), Release 1]"
    by simp
  from again example_run keep obtain a2 h2 where
    q2: "query_at example_heap2 0 ''na[amenity=cafe]'' example_bbox = Some (a2, h2)" and
    same: "outcome h2 a2 = outcome example_heap1 (Inr 1)" and
    fresh: "\<forall>p1 p2. Inr 1 = (Inr p1 :: exception + addr) \<and> a2 = Inr p2 \<longrightarrow> p1 \<noteq> p2"
    unfolding a1 h1 by blast
  have "outcome example_heap1 (Inr 1) = Some (Inr example_result)"
    using example_cell_result by simp
  with same have o2: "outcome h2 a2 = Some (Inr example_result)"
    by simp
  from fresh have "a2 \<noteq> Inr 1"
    by auto
  with example_cell_store example_query_at example_run keep q2 o2 show ?thesis
    by blast
qed

text \<open>
  Claim C9. Let \<open>p\<close> point to a result. Through any sequence of calls that does not let
  go of \<open>p\<close> itself, the object at \<open>p\<close> stays what it was, and every read of \<open>p\<close> in the
  sequence answers from its records alone: the size, the record at the index or
  \<open>out_of_range\<close>, the whole vector. Reads of \<open>p\<close> mixed with the destruction of other
  objects, the store among them, always run to the end: no read goes back to the store.
\<close>

theorem result_is_a_snapshot:
  assumes "cell h p = Some (ResultObj r)"
  shows "(list_all (reads_or_releases p) evs \<longrightarrow> (\<exists>as h'. run h evs = Some (as, h'))) \<and>
         (\<forall>as h'. run h evs = Some (as, h') \<and> Release p \<notin> set evs \<longrightarrow>
            cell h' p = Some (ResultObj r) \<and>
            (\<forall>k<length evs. \<forall>rd. evs ! k = Read p rd \<longrightarrow> as ! k = Reply (fst (call rd r))))"
  using run_total [OF assms] run_keeps_cell [OF assms] run_reads [OF assms]
  by blast

theorem result_is_a_snapshot_witness:
  "cell example_heap1 1 = Some (ResultObj example_result) \<and>
   list_all (reads_or_releases 1) example_events \<and>
   Release 1 \<notin> set example_events \<and>
   (\<exists>as h'. run example_heap1 example_events = Some (as, h') \<and>
      cell h' 1 = Some (ResultObj example_result) \<and>
      cell h' 0 = None \<and>
      as ! 0 = Reply (Size 2) \<and>
      as ! 2 = Reply (Record (Inr example_way_data)) \<and>
      as ! 3 = Reply (Records [example_cafe_data, example_way_data]) \<and>
      as ! 4 = Reply (Record (Inl (out_of_range ''Feature index out of range''))))"
proof -
  note snap = result_is_a_snapshot [OF example_cell_result, of example_events]
  have ok: "list_all (reads_or_releases 1) example_events"
    by (simp add: example_events_def)
  have keep: "Release 1 \<notin> set example_events"
    by (simp add: example_events_def)
  from snap ok obtain as h' where r: "run example_heap1 example_events = Some (as, h')"
    by blast
  with snap keep have c: "cell h' 1 = Some (ResultObj example_result)" and
    a: "\<forall>k<length example_events. \<forall>rd. example_events ! k = Read 1 rd \<longrightarrow>
          as ! k = Reply (fst (call rd example_result))"
    by blast+
  from a have "as ! 0 = Reply (Size 2)"
    and "as ! 2 = Reply (Record (Inr example_way_data))"
    and "as ! 3 = Reply (Records [example_cafe_data, example_way_data])"
    and "as ! 4 = Reply (Record (Inl (out_of_range ''Feature index out of range'')))"
    by (simp_all add: example_events_def count_def get_def to_vector_def example_result_def)
  moreover from r have "cell h' 0 = None"
    by (auto simp: example_events_def example_heap1_def example_result_def count_at_def
        get_at_def to_vector_at_def make_unique_def release_def cell_def)
  ultimately show ?thesis using example_cell_result ok keep r c by blast
qed

text \<open>
  Claim C10. In every record of the result of a query, \<open>tag_keys\<close> and \<open>tag_values\<close> have
  the same length, and the key and the value at a position are the key and the value of
  the tag the store gave at that position.
\<close>

theorem tags_parallel:
  assumes "query store goql_query bbox = Inr r" and "i < count r"
  shows "length (tag_keys (to_vector r ! i)) = length (tag_values (to_vector r ! i)) \<and>
         zip (tag_keys (to_vector r ! i)) (tag_values (to_vector r ! i)) =
           map (\<lambda>tag. (tag_key tag, tag_value tag))
             (iter_items (tags (iter_items (filtered store goql_query bbox) ! i)))"
proof -
  let ?f = "iter_items (filtered store goql_query bbox) ! i"
  from query_record(2) [OF assms] have d: "feature_data ?f = Inr (to_vector r ! i)" .
  show ?thesis
    by (simp add: feature_data_Inr(6) [OF d] feature_data_Inr(7) [OF d] zip_map_same)
qed

theorem tags_parallel_witness:
  "query example_store ''na[amenity=cafe]'' example_bbox = Inr example_result \<and>
   0 < count example_result \<and>
   length (tag_keys (to_vector example_result ! 0)) = 2 \<and>
   length (tag_values (to_vector example_result ! 0)) = 2 \<and>
   zip (tag_keys (to_vector example_result ! 0)) (tag_values (to_vector example_result ! 0)) =
     [(''amenity'', ''cafe''), (''name'', ''Joe'')]"
  using tags_parallel [OF example_query, of 0] example_query
  by (simp add: example_filtered count_def to_vector_def example_result_def example_cafe_def
      example_cafe_data_def)

end
